theory Spec2Isabelle
  imports Complex_Main "HOL-Library.Char_ord" "HOL-Library.List_Lexorder"
begin

section \<open>JavaScript values\<close>

text \<open>
  Both programs of the repository, the Express server and the MobX store, pass around
  untyped JavaScript values: the request body that \<open>express.json()\<close> parsed, the
  result of \<open>response.json()\<close>, the order objects. A value is one of the JSON kinds
  or \<open>undefined\<close> (what reading an absent property gives). A number carries its
  value (the finite numbers that JSON can denote are rationals). An object is a
  dictionary from property names to values; the order of properties plays no part below.
\<close>

datatype jsval =
    JUndefined
  | JNull
  | JBool bool
  | JNum rat
  | JStr string
  | JArr "jsval list"
  | JObj "string \<Rightarrow> jsval option"

type_synonym jobject = "string \<Rightarrow> jsval option"

datatype js_error = TypeError | SyntaxError | NetworkFailure

text \<open>
  Truthiness, as \<open>!x\<close> and \<open>x || y\<close> read it: \<open>undefined\<close>, \<open>null\<close>, \<open>false\<close>,
  \<open>0\<close> and the empty string are falsy, every other value is truthy.
\<close>

fun truthy :: "jsval \<Rightarrow> bool" where
  "truthy JUndefined = False"
| "truthy JNull = False"
| "truthy (JBool b) = b"
| "truthy (JNum n) = (n \<noteq> 0)"
| "truthy (JStr s) = (s \<noteq> [])"
| "truthy (JArr xs) = True"
| "truthy (JObj m) = True"

text \<open>\<open>obj.k\<close> on an object: the value stored under \<open>k\<close>, or \<open>undefined\<close>.\<close>

definition field :: "jobject \<Rightarrow> string \<Rightarrow> jsval" where
  "field obj k = (case obj k of None \<Rightarrow> JUndefined | Some v \<Rightarrow> v)"

text \<open>
  \<open>v.k\<close> on an arbitrary value, for the property names \<open>order\<close> and \<open>orders\<close> that
  the store reads from a parsed response: \<open>null\<close> and \<open>undefined\<close> raise a TypeError,
  an object is looked up, and a number, boolean, string or array carries no property of
  either name.
\<close>

fun get_prop :: "jsval \<Rightarrow> string \<Rightarrow> js_error + jsval" where
  "get_prop JUndefined k = Inl TypeError"
| "get_prop JNull k = Inl TypeError"
| "get_prop (JObj m) k = Inr (field m k)"
| "get_prop v k = Inr JUndefined"

text \<open>
  \<open>`${v}`\<close> in a template literal converts \<open>v\<close> to a string. For a value that came
  out of JSON this raises a TypeError in one case only. An object is converted by its
  \<open>toString\<close>, then its \<open>valueOf\<close>: an own \<open>toString\<close> property is never a
  function, \<open>valueOf\<close> (own, or inherited and returning the object itself) gives no
  primitive, and the conversion raises; without an own \<open>toString\<close> the inherited one
  answers. An array joins the conversions of its elements, \<open>null\<close> and \<open>undefined\<close>
  counting as empty. \<open>renders v\<close> says that the conversion of \<open>v\<close> completes.
\<close>

fun renders :: "jsval \<Rightarrow> bool" where
  "renders (JObj m) = (m ''toString'' = None)"
| "renders (JArr xs) = list_all renders xs"
| "renders v = True"

section \<open>Decimal rendering of a number\<close>

text \<open>
  A template literal renders a non-negative integer (\<open>Date.now()\<close>, \<open>orders.length\<close>)
  in decimal.
\<close>

definition digit_char :: "nat \<Rightarrow> char" where
  "digit_char d = ''0123456789'' ! d"

fun string_of_nat :: "nat \<Rightarrow> string" where
  "string_of_nat n =
     (if n < 10 then [digit_char n]
      else string_of_nat (n div 10) @ [digit_char (n mod 10)])"

declare string_of_nat.simps [simp del]

text \<open>\<open>s.substr(start, len)\<close> for non-negative \<open>start\<close> and \<open>len\<close>.\<close>

definition substr :: "nat \<Rightarrow> nat \<Rightarrow> string \<Rightarrow> string" where
  "substr start len s = take len (drop start s)"

section \<open>The server: the registry and its three routes\<close>

text \<open>
  The server's state is the module variable \<open>let orders = []\<close>: the list of stored
  orders, oldest first.
\<close>

type_synonym registry = "jobject list"

definition init_registry :: registry where
  "init_registry = []"

text \<open>
  What the runtime hands to one run of the create handler: the reading of
  \<open>Date.now()\<close> inside \<open>generateId\<close>, the string \<open>Math.random().toString(36)\<close>, and
  the string \<open>new Date().toISOString()\<close>.
\<close>

record env =
  date_now :: nat
  random36 :: string
  date_iso :: string

definition generateId :: "env \<Rightarrow> string" where
  "generateId e = ''order_'' @ string_of_nat (date_now e) @ ''_'' @ substr 2 9 (random36 e)"

record response =
  status :: nat
  payload :: jsval

text \<open>
  \<open>server.post("/api/order")\<close>. The body is the object that \<open>express.json()\<close> left
  in \<open>req.body\<close> (Express 4: an object, also when nothing was parsed; an array body
  has none of the four properties and behaves as the empty object). The guard
  tests the four properties for truthiness. The order literal is
  \<open>{ id: generateId(), ...orderData, timestamp: ... }\<close>: the generated id first, the
  properties of the body over it, the timestamp last (\<open>new_order\<close>).

  \<open>post_order_try\<close> is the \<open>try\<close> block: the registry it leaves and either the
  response it sent or the error it raised. After \<open>orders.push(order)\<close> the handler logs
  \<open>`Order created: ${order.id}`\<close>, and this conversion of the id is the one step of
  the block that can raise; by then the order is stored. \<open>post_order\<close> adds the
  \<open>catch\<close>, which answers 500.
\<close>

definition new_order :: "env \<Rightarrow> jobject \<Rightarrow> jobject" where
  "new_order e orderData =
     ([''id'' \<mapsto> JStr (generateId e)] ++ orderData)(''timestamp'' \<mapsto> JStr (date_iso e))"

definition post_order_try ::
    "env \<Rightarrow> jobject \<Rightarrow> registry \<Rightarrow> registry \<times> (js_error + response)" where
  "post_order_try e orderData orders =
     (if \<not> truthy (field orderData ''symbol'') \<or> \<not> truthy (field orderData ''orderType'')
         \<or> \<not> truthy (field orderData ''quantity'') \<or> \<not> truthy (field orderData ''side'')
      then (orders,
            Inr \<lparr>status = 400,
                 payload = JObj [''success'' \<mapsto> JBool False,
                                 ''error'' \<mapsto> JStr ''Missing required fields'']\<rparr>)
      else
        let order = new_order e orderData;
            orders' = orders @ [order]
        in if renders (field order ''id'')
           then (orders',
                 Inr \<lparr>status = 201,
                      payload = JObj [''success'' \<mapsto> JBool True, ''order'' \<mapsto> JObj order]\<rparr>)
           else (orders', Inl TypeError))"

definition post_order :: "env \<Rightarrow> jobject \<Rightarrow> registry \<Rightarrow> registry \<times> response" where
  "post_order e orderData orders =
     (case post_order_try e orderData orders of
        (orders', Inr sent) \<Rightarrow> (orders', sent)
      | (orders', Inl err) \<Rightarrow>
          (orders',
           \<lparr>status = 500,
            payload = JObj [''success'' \<mapsto> JBool False,
                            ''error'' \<mapsto> JStr ''Failed to create order'']\<rparr>))"

text \<open>\<open>server.get("/api/orders")\<close>.\<close>

definition get_orders :: "registry \<Rightarrow> registry \<times> response" where
  "get_orders orders =
     (orders,
      \<lparr>status = 200,
       payload = JObj [''success'' \<mapsto> JBool True,
                       ''orders'' \<mapsto> JArr (map JObj orders),
                       ''count'' \<mapsto> JNum (of_nat (length orders))]\<rparr>)"

text \<open>\<open>server.delete("/api/orders")\<close>.\<close>

definition delete_orders :: "registry \<Rightarrow> registry \<times> response" where
  "delete_orders orders =
     (let count = length orders
      in ([],
          \<lparr>status = 200,
           payload = JObj [''success'' \<mapsto> JBool True,
                           ''message'' \<mapsto> JStr (''Cleared '' @ string_of_nat count @ '' orders'')]\<rparr>))"

text \<open>
  A process lifetime is a sequence of requests handled one at a time, starting from the
  empty registry.
\<close>

datatype request = PostOrder env jobject | GetOrders | DeleteOrders

fun handle :: "request \<Rightarrow> registry \<Rightarrow> registry \<times> response" where
  "handle (PostOrder e orderData) orders = post_order e orderData orders"
| "handle GetOrders orders = get_orders orders"
| "handle DeleteOrders orders = delete_orders orders"

fun run :: "request list \<Rightarrow> registry \<Rightarrow> registry \<times> response list" where
  "run [] orders = (orders, [])"
| "run (r # rs) orders =
     (case handle r orders of
        (orders', a) \<Rightarrow> (case run rs orders' of (orders'', as) \<Rightarrow> (orders'', a # as)))"

text \<open>
  The orders that a run handed back: the \<open>order\<close> property of every 201 response,
  in the order of the responses.
\<close>

definition created_order :: "response \<Rightarrow> jobject option" where
  "created_order r =
     (if status r = 201
      then (case payload r of
              JObj m \<Rightarrow> (case m ''order'' of Some (JObj order) \<Rightarrow> Some order | _ \<Rightarrow> None)
            | _ \<Rightarrow> None)
      else None)"

definition created_orders :: "response list \<Rightarrow> jobject list" where
  "created_orders rs = List.map_filter created_order rs"

text \<open>The timestamp string of a stored order (empty when it has none).\<close>

definition timestamp_of :: "jobject \<Rightarrow> string" where
  "timestamp_of order = (case order ''timestamp'' of Some (JStr t) \<Rightarrow> t | _ \<Rightarrow> [])"

subsection \<open>Predicates on request bodies and orders\<close>

text \<open>
  A property is lacking when it is missing or its value is falsy; a body has the
  required properties when none of the four is lacking. This is the reading of the
  handler's guard.
\<close>

definition lacking :: "jobject \<Rightarrow> string \<Rightarrow> bool" where
  "lacking obj k = (case obj k of None \<Rightarrow> True | Some v \<Rightarrow> \<not> truthy v)"

definition has_required :: "jobject \<Rightarrow> bool" where
  "has_required obj =
     (truthy (field obj ''symbol'') \<and> truthy (field obj ''orderType'')
      \<and> truthy (field obj ''quantity'') \<and> truthy (field obj ''side''))"

text \<open>
  The id of the order made from a body renders when the body has no \<open>id\<close> (the
  generated id is a string) or its \<open>id\<close> renders.
\<close>

definition id_renders :: "jobject \<Rightarrow> bool" where
  "id_renders obj = (case obj ''id'' of None \<Rightarrow> True | Some v \<Rightarrow> renders v)"

text \<open>
  The create requests of a sequence whose bodies pass the guard, and whose orders are
  therefore stored (\<open>stored_posts\<close>), and those among them that are answered 201
  (\<open>accepted_posts\<close>); oldest first, each with the environment it ran in.
\<close>

fun stored_posts :: "request list \<Rightarrow> (env \<times> jobject) list" where
  "stored_posts [] = []"
| "stored_posts (PostOrder e orderData # rs) =
     (if has_required orderData then (e, orderData) # stored_posts rs
      else stored_posts rs)"
| "stored_posts (GetOrders # rs) = stored_posts rs"
| "stored_posts (DeleteOrders # rs) = stored_posts rs"

definition accepted_posts :: "request list \<Rightarrow> (env \<times> jobject) list" where
  "accepted_posts rs = filter (\<lambda>(e, orderData). id_renders orderData) (stored_posts rs)"

text \<open>
  The conditional-requirement rule in the words of the specification, on an order
  object: a Limit or Stop Limit order carries a price that is a positive number, and a
  Stop Limit order carries a stop price.
\<close>

definition positive_number :: "jsval \<Rightarrow> bool" where
  "positive_number v = (case v of JNum n \<Rightarrow> 0 < n | _ \<Rightarrow> False)"

definition conditional_requirement :: "jobject \<Rightarrow> bool" where
  "conditional_requirement order =
     ((field order ''orderType'' = JStr ''Limit'' \<or> field order ''orderType'' = JStr ''Stop Limit''
         \<longrightarrow> positive_number (field order ''price''))
      \<and> (field order ''orderType'' = JStr ''Stop Limit'' \<longrightarrow> order ''stopPrice'' \<noteq> None))"

section \<open>The client store\<close>

text \<open>
  \<open>class OrderStore\<close>: the observable fields \<open>orders\<close> and \<open>isLoading\<close>.
  TypeScript declares \<open>orders: Order[]\<close>, but \<open>fetchOrders\<close> assigns whatever the
  response carries under \<open>orders\<close>, so the field holds a JavaScript value;
  \<open>this.orders.push(order)\<close> raises a TypeError when that value is not an array.
\<close>

record OrderStore =
  orders :: jsval
  isLoading :: bool

definition init_store :: OrderStore where
  "init_store = \<lparr>orders = JArr [], isLoading = False\<rparr>"

definition addOrder :: "jsval \<Rightarrow> OrderStore \<Rightarrow> js_error + OrderStore" where
  "addOrder order s =
     (case orders s of
        JArr xs \<Rightarrow> Inr (s\<lparr>orders := JArr (xs @ [order])\<rparr>)
      | _ \<Rightarrow> Inl TypeError)"

definition setOrders :: "jsval \<Rightarrow> OrderStore \<Rightarrow> OrderStore" where
  "setOrders v s = s\<lparr>orders := v\<rparr>"

definition clearOrders :: "OrderStore \<Rightarrow> OrderStore" where
  "clearOrders s = s\<lparr>orders := JArr []\<rparr>"

definition setLoading :: "bool \<Rightarrow> OrderStore \<Rightarrow> OrderStore" where
  "setLoading loading s = s\<lparr>isLoading := loading\<rparr>"

text \<open>
  The browser's \<open>fetch\<close> is a parameter of the two asynchronous actions. A call is
  rejected (the network failed), or it resolves to a response with its \<open>ok\<close> flag and
  what \<open>response.json()\<close> will give: a parse failure or the parsed value.
\<close>

datatype json_result = ParseFailure | Parsed jsval

datatype fetch_result = Rejected | Response bool json_result

datatype http_request = Get string | Post string jsval

text \<open>
  An asynchronous action runs up to its first \<open>await\<close>, is suspended while the request
  is out, and runs on when the response is in. What one call shows of the store is the
  state while it is suspended (\<open>in_flight\<close>) and the state once its promise has settled
  (\<open>settled\<close>); \<open>submitOrder\<close> also resolves to a boolean.
\<close>

record action_run =
  in_flight :: OrderStore
  settled :: OrderStore

record submit_run = action_run +
  resolved :: bool

text \<open>
  \<open>fetchOrders\<close>. \<open>fetchOrders_try\<close> is the body of the \<open>try\<close> block once
  \<open>fetch\<close> has settled, \<open>fetchOrders_end\<close> adds the \<open>catch\<close> (which only logs)
  and the \<open>finally\<close>; \<open>fetchOrders\<close> is the whole action, from
  \<open>this.setLoading(true)\<close> on.
\<close>

definition fetchOrders_try :: "fetch_result \<Rightarrow> OrderStore \<Rightarrow> js_error + OrderStore" where
  "fetchOrders_try r s =
     (case r of
        Rejected \<Rightarrow> Inl NetworkFailure
      | Response ok body \<Rightarrow>
          if ok then
            (case body of
               ParseFailure \<Rightarrow> Inl SyntaxError
             | Parsed data \<Rightarrow>
                 (case get_prop data ''orders'' of
                    Inl err \<Rightarrow> Inl err
                  | Inr v \<Rightarrow> Inr (setOrders (if truthy v then v else JArr []) s)))
          else Inr s)"

definition fetchOrders_end :: "fetch_result \<Rightarrow> OrderStore \<Rightarrow> OrderStore" where
  "fetchOrders_end r s =
     setLoading False (case fetchOrders_try r s of Inl err \<Rightarrow> s | Inr s' \<Rightarrow> s')"

definition fetchOrders :: "(http_request \<Rightarrow> fetch_result) \<Rightarrow> OrderStore \<Rightarrow> action_run" where
  "fetchOrders fetch s =
     (let s1 = setLoading True s
      in \<lparr>in_flight = s1, settled = fetchOrders_end (fetch (Get ''/api/orders'')) s1\<rparr>)"

text \<open>
  \<open>submitOrder\<close>, cut the same way. The \<open>try\<close> block returns \<open>true\<close> after
  \<open>addOrder\<close>, \<open>false\<close> on a response that is not ok; the \<open>catch\<close> returns
  \<open>false\<close>. A raise leaves the store as it was: \<open>addOrder\<close> is the only mutation
  and the last step.
\<close>

definition submitOrder_try :: "fetch_result \<Rightarrow> OrderStore \<Rightarrow> js_error + OrderStore \<times> bool" where
  "submitOrder_try r s =
     (case r of
        Rejected \<Rightarrow> Inl NetworkFailure
      | Response ok body \<Rightarrow>
          if ok then
            (case body of
               ParseFailure \<Rightarrow> Inl SyntaxError
             | Parsed data \<Rightarrow>
                 (case get_prop data ''order'' of
                    Inl err \<Rightarrow> Inl err
                  | Inr order \<Rightarrow>
                      (case addOrder order s of
                         Inl err \<Rightarrow> Inl err
                       | Inr s' \<Rightarrow> Inr (s', True))))
          else Inr (s, False))"

definition submitOrder_end :: "fetch_result \<Rightarrow> OrderStore \<Rightarrow> OrderStore \<times> bool" where
  "submitOrder_end r s =
     (case submitOrder_try r s of
        Inl err \<Rightarrow> (setLoading False s, False)
      | Inr (s', result) \<Rightarrow> (setLoading False s', result))"

definition submitOrder ::
    "(http_request \<Rightarrow> fetch_result) \<Rightarrow> jsval \<Rightarrow> OrderStore \<Rightarrow> submit_run" where
  "submitOrder fetch orderData s =
     (let s1 = setLoading True s;
          outcome = submitOrder_end (fetch (Post ''/api/order'' orderData)) s1
      in \<lparr>in_flight = s1, settled = fst outcome, resolved = snd outcome\<rparr>)"

section \<open>Sample requests\<close>

text \<open>
  Four environments (the second in the same millisecond as the first, with another
  random number that agrees with the first on its leading digits; the third a second
  earlier, as after the clock was reset; the fourth 250 ms later) and the request
  bodies used as concrete inputs below: the Market and
  Stop Limit orders of the test scenarios, a Limit order without a price, a body without
  \<open>side\<close>, one with quantity 0, a Market order with a price, and one that carries an
  \<open>id\<close> of its own.
\<close>

definition sample_env :: env where
  "sample_env =
     \<lparr>date_now = 1705314600000, random36 = ''0.4fzyo82mvyr'',
      date_iso = ''2024-01-15T10:30:00.000Z''\<rparr>"

definition twin_env :: env where
  "twin_env =
     \<lparr>date_now = 1705314600000, random36 = ''0.4fzyo82mvq7'',
      date_iso = ''2024-01-15T10:30:00.000Z''\<rparr>"

definition earlier_env :: env where
  "earlier_env =
     \<lparr>date_now = 1705314599000, random36 = ''0.9q3m5t0wdchk'',
      date_iso = ''2024-01-15T10:29:59.000Z''\<rparr>"

definition later_env :: env where
  "later_env =
     \<lparr>date_now = 1705314600250, random36 = ''0.k2j7x1q9zzb4'',
      date_iso = ''2024-01-15T10:30:00.250Z''\<rparr>"

definition market_body :: jobject where
  "market_body =
     [''symbol'' \<mapsto> JStr ''NIFTY'', ''orderType'' \<mapsto> JStr ''Market'',
      ''quantity'' \<mapsto> JNum 10, ''side'' \<mapsto> JStr ''Buy'']"

definition stop_limit_body :: jobject where
  "stop_limit_body =
     [''symbol'' \<mapsto> JStr ''RELIANCE'', ''orderType'' \<mapsto> JStr ''Stop Limit'',
      ''quantity'' \<mapsto> JNum 15, ''price'' \<mapsto> JNum 2450, ''stopPrice'' \<mapsto> JNum 2400,
      ''side'' \<mapsto> JStr ''Buy'']"

definition limit_no_price_body :: jobject where
  "limit_no_price_body =
     [''symbol'' \<mapsto> JStr ''TCS'', ''orderType'' \<mapsto> JStr ''Limit'',
      ''quantity'' \<mapsto> JNum 5, ''side'' \<mapsto> JStr ''Sell'']"

definition no_side_body :: jobject where
  "no_side_body =
     [''symbol'' \<mapsto> JStr ''NIFTY'', ''orderType'' \<mapsto> JStr ''Market'',
      ''quantity'' \<mapsto> JNum 10]"

definition zero_quantity_body :: jobject where
  "zero_quantity_body =
     [''symbol'' \<mapsto> JStr ''NIFTY'', ''orderType'' \<mapsto> JStr ''Market'',
      ''quantity'' \<mapsto> JNum 0, ''side'' \<mapsto> JStr ''Buy'']"

definition market_priced_body :: jobject where
  "market_priced_body =
     [''symbol'' \<mapsto> JStr ''NIFTY'', ''orderType'' \<mapsto> JStr ''Market'',
      ''quantity'' \<mapsto> JNum 10, ''price'' \<mapsto> JNum 100, ''side'' \<mapsto> JStr ''Buy'']"

definition own_id_body :: jobject where
  "own_id_body =
     [''id'' \<mapsto> JStr ''x'', ''timestamp'' \<mapsto> JStr ''1999-01-01T00:00:00.000Z'',
      ''symbol'' \<mapsto> JStr ''NIFTY'', ''orderType'' \<mapsto> JStr ''Market'',
      ''quantity'' \<mapsto> JNum 10, ''side'' \<mapsto> JStr ''Buy'']"

text \<open>A body that passes the guard and whose \<open>id\<close> is an object with a \<open>toString\<close> property.\<close>

definition odd_id_body :: jobject where
  "odd_id_body =
     [''id'' \<mapsto> JObj [''toString'' \<mapsto> JNum 1],
      ''symbol'' \<mapsto> JStr ''NIFTY'', ''orderType'' \<mapsto> JStr ''Market'',
      ''quantity'' \<mapsto> JNum 10, ''side'' \<mapsto> JStr ''Buy'']"

text \<open>A store that already holds one order.\<close>

definition sample_store :: OrderStore where
  "sample_store =
     \<lparr>orders = JArr [JObj (new_order sample_env market_body)], isLoading = False\<rparr>"

section \<open>Basic facts about the create handler\<close>

lemma new_order_other:
  "k \<noteq> ''id'' \<Longrightarrow> k \<noteq> ''timestamp'' \<Longrightarrow> new_order e b k = b k"
  by (simp add: new_order_def map_add_def split: option.splits)

lemma new_order_timestamp: "new_order e b ''timestamp'' = Some (JStr (date_iso e))"
  by (simp add: new_order_def)

lemma new_order_id:
  "new_order e b ''id'' = (case b ''id'' of None \<Rightarrow> Some (JStr (generateId e)) | Some v \<Rightarrow> Some v)"
  by (simp add: new_order_def map_add_def split: option.splits)

lemma renders_new_order_id: "renders (field (new_order e b) ''id'') = id_renders b"
  by (simp add: field_def new_order_id id_renders_def split: option.splits)

lemma has_required_new_order: "has_required b \<Longrightarrow> has_required (new_order e b)"
  by (simp add: has_required_def field_def new_order_other)

text \<open>The three ways the handler ends.\<close>

lemma post_order_reject:
  "\<not> has_required b \<Longrightarrow>
   post_order e b reg =
     (reg,
      \<lparr>status = 400,
       payload = JObj [''success'' \<mapsto> JBool False,
                       ''error'' \<mapsto> JStr ''Missing required fields'']\<rparr>)"
  by (auto simp add: post_order_def post_order_try_def has_required_def)

lemma post_order_accept:
  "has_required b \<Longrightarrow> id_renders b \<Longrightarrow>
   post_order e b reg =
     (reg @ [new_order e b],
      \<lparr>status = 201,
       payload = JObj [''success'' \<mapsto> JBool True, ''order'' \<mapsto> JObj (new_order e b)]\<rparr>)"
  by (simp add: post_order_def post_order_try_def has_required_def Let_def renders_new_order_id)

lemma post_order_fault:
  "has_required b \<Longrightarrow> \<not> id_renders b \<Longrightarrow>
   post_order e b reg =
     (reg @ [new_order e b],
      \<lparr>status = 500,
       payload = JObj [''success'' \<mapsto> JBool False,
                       ''error'' \<mapsto> JStr ''Failed to create order'']\<rparr>)"
  by (simp add: post_order_def post_order_try_def has_required_def Let_def renders_new_order_id)

lemma post_order_status:
  "status (snd (post_order e b reg)) =
     (if has_required b then (if id_renders b then 201 else 500) else 400)"
  by (simp add: post_order_accept post_order_fault post_order_reject)

lemma post_order_registry:
  "fst (post_order e b reg) = (if has_required b then reg @ [new_order e b] else reg)"
  by (cases "id_renders b") (simp_all add: post_order_accept post_order_fault post_order_reject)

subsection \<open>Decimal strings and generated ids\<close>

text \<open>
  The decimal rendering is injective and never contains an underscore, so a generated id
  determines the clock reading and the random suffix it was built from.
\<close>

lemma digit_cases:
  "d < 10 \<Longrightarrow> d = 0 \<or> d = 1 \<or> d = 2 \<or> d = 3 \<or> d = 4 \<or> d = 5 \<or> d = 6 \<or> d = 7 \<or> d = 8 \<or> d = (9::nat)"
  by arith

lemma of_char_digit:
  assumes "d < 10"
  shows "of_char (digit_char d) = (48 + d :: nat)"
  using digit_cases [OF assms] by (elim disjE) (simp_all add: digit_char_def)

lemma digit_char_inj:
  assumes "a < 10" "b < 10" "digit_char a = digit_char b"
  shows "a = b"
proof -
  have "(48 + a :: nat) = of_char (digit_char a)"
    by (rule of_char_digit [OF assms(1), symmetric])
  also have "\<dots> = of_char (digit_char b)"
    by (simp only: assms(3))
  also have "\<dots> = 48 + b"
    by (rule of_char_digit [OF assms(2)])
  finally show ?thesis by simp
qed

lemma digit_char_not_underscore: "d < 10 \<Longrightarrow> digit_char d \<noteq> CHR ''_''"
proof
  assume "d < 10" and eq: "digit_char d = CHR ''_''"
  have "(48 + d :: nat) = of_char (digit_char d)"
    by (rule of_char_digit [OF \<open>d < 10\<close>, symmetric])
  also have "\<dots> = of_char (CHR ''_'')"
    by (simp only: eq)
  also have "\<dots> = (95 :: nat)"
    by simp
  finally show False
    using \<open>d < 10\<close> by simp
qed

lemma string_of_nat_not_Nil: "string_of_nat n \<noteq> []"
  by (subst string_of_nat.simps) simp

lemma underscore_notin_string_of_nat: "CHR ''_'' \<notin> set (string_of_nat n)"
proof (induction n rule: string_of_nat.induct)
  case (1 n)
  show ?case
  proof (cases "n < 10")
    case True
    then show ?thesis
      using digit_char_not_underscore [of n] by (subst string_of_nat.simps) auto
  next
    case False
    have "n mod 10 < 10" by simp
    then have "digit_char (n mod 10) \<noteq> CHR ''_''"
      by (rule digit_char_not_underscore)
    with False 1 show ?thesis
      by (subst string_of_nat.simps) auto
  qed
qed

lemma string_of_nat_inj: "string_of_nat n = string_of_nat m \<Longrightarrow> n = m"
proof (induction n arbitrary: m rule: string_of_nat.induct)
  case (1 n)
  show ?case
  proof (cases "n < 10")
    case n_small: True
    show ?thesis
    proof (cases "m < 10")
      case True
      with n_small 1(2) show ?thesis
        by (simp add: string_of_nat.simps [of n] string_of_nat.simps [of m] digit_char_inj)
    next
      case False
      with n_small 1(2) string_of_nat_not_Nil [of "m div 10"] show ?thesis
        by (simp add: string_of_nat.simps [of n] string_of_nat.simps [of m] Cons_eq_append_conv)
    qed
  next
    case n_big: False
    show ?thesis
    proof (cases "m < 10")
      case True
      with n_big 1(2) string_of_nat_not_Nil [of "n div 10"] show ?thesis
        by (simp add: string_of_nat.simps [of n] string_of_nat.simps [of m] append_eq_Cons_conv)
    next
      case False
      with n_big 1(2) have
        eq: "string_of_nat (n div 10) = string_of_nat (m div 10)"
        and d: "digit_char (n mod 10) = digit_char (m mod 10)"
        by (simp_all add: string_of_nat.simps [of n] string_of_nat.simps [of m])
      from 1(1) [OF n_big eq] have "n div 10 = m div 10" .
      moreover have "n mod 10 = m mod 10"
        using d by (intro digit_char_inj) simp_all
      ultimately show ?thesis
        by (metis div_mult_mod_eq)
    qed
  qed
qed

lemma split_at_separator:
  "c \<notin> set xs \<Longrightarrow> c \<notin> set xs' \<Longrightarrow> xs @ c # ys = xs' @ c # ys' \<Longrightarrow> xs = xs' \<and> ys = ys'"
proof (induction xs arbitrary: xs')
  case Nil
  then show ?case by (cases xs') auto
next
  case (Cons x xs)
  then show ?case by (cases xs') auto
qed

lemma generateId_inj:
  assumes "generateId e = generateId e'"
  shows "date_now e = date_now e' \<and> substr 2 9 (random36 e) = substr 2 9 (random36 e')"
proof -
  from assms have
    "string_of_nat (date_now e) @ CHR ''_'' # substr 2 9 (random36 e)
     = string_of_nat (date_now e') @ CHR ''_'' # substr 2 9 (random36 e')"
    by (simp add: generateId_def)
  then have "string_of_nat (date_now e) = string_of_nat (date_now e')
      \<and> substr 2 9 (random36 e) = substr 2 9 (random36 e')"
    by (intro split_at_separator [where c = "CHR ''_''"]) (simp_all add: underscore_notin_string_of_nat)
  then show ?thesis
    by (auto dest: string_of_nat_inj)
qed

subsection \<open>Runs, and the sample bodies\<close>

text \<open>
  One step of a run, written with projections; it replaces the defining equation as the
  simplification rule.
\<close>

lemma run_Cons [simp]:
  "run (r # rs) reg =
     (fst (run rs (fst (handle r reg))),
      snd (handle r reg) # snd (run rs (fst (handle r reg))))"
  by (simp split: prod.splits)

declare run.simps(2) [simp del]

lemma fst_run_Cons: "fst (run (r # rs) reg) = fst (run rs (fst (handle r reg)))"
  by simp

lemma snd_run_Cons:
  "snd (run (r # rs) reg) = snd (handle r reg) # snd (run rs (fst (handle r reg)))"
  by simp

lemma has_required_own_id_body: "has_required own_id_body"
  by (simp add: has_required_def field_def own_id_body_def)

lemma has_required_market_body: "has_required market_body"
  by (simp add: has_required_def field_def market_body_def)

lemma has_required_market_priced_body: "has_required market_priced_body"
  by (simp add: has_required_def field_def market_priced_body_def)

lemma has_required_limit_no_price_body: "has_required limit_no_price_body"
  by (simp add: has_required_def field_def limit_no_price_body_def)

lemma has_required_stop_limit_body: "has_required stop_limit_body"
  by (simp add: has_required_def field_def stop_limit_body_def)

lemma has_required_odd_id_body: "has_required odd_id_body"
  by (simp add: has_required_def field_def odd_id_body_def)

lemma not_has_required_no_side_body: "\<not> has_required no_side_body"
  by (simp add: has_required_def field_def no_side_body_def)

lemma id_renders_own_id_body: "id_renders own_id_body"
  by (simp add: id_renders_def own_id_body_def)

lemma id_renders_market_body: "id_renders market_body"
  by (simp add: id_renders_def market_body_def)

lemma id_renders_market_priced_body: "id_renders market_priced_body"
  by (simp add: id_renders_def market_priced_body_def)

lemma id_renders_limit_no_price_body: "id_renders limit_no_price_body"
  by (simp add: id_renders_def limit_no_price_body_def)

lemma id_renders_stop_limit_body: "id_renders stop_limit_body"
  by (simp add: id_renders_def stop_limit_body_def)

lemma not_id_renders_odd_id_body: "\<not> id_renders odd_id_body"
  by (simp add: id_renders_def odd_id_body_def)

lemma generateId_sample_env: "generateId sample_env = ''order_1705314600000_4fzyo82mv''"
  by (simp add: generateId_def sample_env_def substr_def string_of_nat.simps digit_char_def)

lemma generateId_twin_env: "generateId twin_env = ''order_1705314600000_4fzyo82mv''"
  by (simp add: generateId_def twin_env_def substr_def string_of_nat.simps digit_char_def)

lemma generateId_earlier_env: "generateId earlier_env = ''order_1705314599000_9q3m5t0wd''"
  by (simp add: generateId_def earlier_env_def substr_def string_of_nat.simps digit_char_def)

lemma stored_posts_Cons: "stored_posts (r # rs) = stored_posts [r] @ stored_posts rs"
  by (cases r) simp_all

lemma accepted_posts_Cons: "accepted_posts (r # rs) = accepted_posts [r] @ accepted_posts rs"
  unfolding accepted_posts_def by (subst stored_posts_Cons) simp

lemma accepted_posts_single:
  "accepted_posts [r] =
     (case r of
        PostOrder e b \<Rightarrow> if has_required b \<and> id_renders b then [(e, b)] else []
      | _ \<Rightarrow> [])"
  by (cases r) (simp_all add: accepted_posts_def)

lemma created_order_post:
  "created_order (snd (post_order e b reg)) =
     (if has_required b \<and> id_renders b then Some (new_order e b) else None)"
proof (cases "has_required b")
  case True
  then show ?thesis
    by (cases "id_renders b")
      (simp_all add: created_order_def post_order_accept post_order_fault)
next
  case False
  then show ?thesis
    by (simp add: created_order_def post_order_reject)
qed

lemma created_order_handle:
  "created_order (snd (handle r reg)) =
     (case r of
        PostOrder e b \<Rightarrow> if has_required b \<and> id_renders b then Some (new_order e b) else None
      | _ \<Rightarrow> None)"
proof (cases r)
  case (PostOrder e b)
  then show ?thesis by (simp add: created_order_post)
next
  case GetOrders
  then show ?thesis by (simp add: created_order_def get_orders_def)
next
  case DeleteOrders
  then show ?thesis by (simp add: created_order_def delete_orders_def)
qed

lemma created_orders_Cons:
  "created_orders (a # as) =
     (case created_order a of None \<Rightarrow> created_orders as | Some order \<Rightarrow> order # created_orders as)"
  by (simp add: created_orders_def split: option.splits)

lemma created_orders_run:
  "created_orders (snd (run rs reg)) = map (\<lambda>(e, b). new_order e b) (accepted_posts rs)"
proof (induction rs arbitrary: reg)
  case Nil
  then show ?case by (simp add: created_orders_def accepted_posts_def)
next
  case (Cons r rs)
  have "created_orders (snd (run (r # rs) reg)) =
      (case created_order (snd (handle r reg)) of
         None \<Rightarrow> created_orders (snd (run rs (fst (handle r reg))))
       | Some order \<Rightarrow> order # created_orders (snd (run rs (fst (handle r reg)))))"
    by (simp only: snd_run_Cons created_orders_Cons)
  also have "\<dots> = map (\<lambda>(e, b). new_order e b) (accepted_posts [r])
      @ map (\<lambda>(e, b). new_order e b) (accepted_posts rs)"
    unfolding Cons.IH created_order_handle accepted_posts_single by (cases r) simp_all
  also have "\<dots> = map (\<lambda>(e, b). new_order e b) (accepted_posts (r # rs))"
    by (subst accepted_posts_Cons [of r rs]) simp
  finally show ?case .
qed

lemma distinct_map_via:
  assumes "distinct (map g xs)"
    and "\<And>x y. x \<in> set xs \<Longrightarrow> y \<in> set xs \<Longrightarrow> f x = f y \<Longrightarrow> g x = g y"
  shows "distinct (map f xs)"
proof -
  from assms(1) have d: "distinct xs" and i: "inj_on g (set xs)"
    by (simp_all add: distinct_map)
  have "inj_on f (set xs)"
  proof (rule inj_onI)
    fix x y
    assume "x \<in> set xs" "y \<in> set xs" "f x = f y"
    then have "g x = g y" by (rule assms(2))
    with i \<open>x \<in> set xs\<close> \<open>y \<in> set xs\<close> show "x = y"
      by (simp add: inj_on_def)
  qed
  with d show ?thesis by (simp add: distinct_map)
qed

lemma run_posts:
  "list_all (\<lambda>(e, b). has_required b) inputs \<Longrightarrow>
   fst (run (map (\<lambda>(e, b). PostOrder e b) inputs) reg)
     = reg @ map (\<lambda>(e, b). new_order e b) inputs
   \<and> map status (snd (run (map (\<lambda>(e, b). PostOrder e b) inputs) reg))
     = map (\<lambda>(e, b). if id_renders b then 201 else 500) inputs"
proof (induction inputs arbitrary: reg)
  case Nil
  then show ?case by simp
next
  case (Cons x inputs)
  obtain e b where x: "x = (e, b)" by (cases x)
  from Cons.prems x have ok: "has_required b" and rest: "list_all (\<lambda>(e, b). has_required b) inputs"
    by simp_all
  show ?case
    using Cons.IH [OF rest, of "reg @ [new_order e b]"] ok
    by (simp add: x fst_run_Cons snd_run_Cons post_order_registry post_order_status)
qed

section \<open>Basic facts about the store\<close>

lemma submitOrder_end_appended:
  assumes "r = Response True (Parsed data)" "get_prop data ''order'' = Inr order"
    "orders s = JArr xs"
  shows "submitOrder_end r s = (s\<lparr>orders := JArr (xs @ [order]), isLoading := False\<rparr>, True)"
  using assms by (simp add: submitOrder_end_def submitOrder_try_def addOrder_def setLoading_def)

lemma submitOrder_end_failed:
  assumes "r = Rejected \<or> r = Response False body \<or> r = Response ok ParseFailure"
  shows "submitOrder_end r s = (s\<lparr>isLoading := False\<rparr>, False)"
  using assms by (auto simp add: submitOrder_end_def submitOrder_try_def setLoading_def)

lemma submitOrder_try_result:
  "submitOrder_try r s = Inr (s', result) \<Longrightarrow>
   (result \<longrightarrow> (\<exists>data order xs. r = Response True (Parsed data)
        \<and> get_prop data ''order'' = Inr order \<and> orders s = JArr xs))
   \<and> (\<not> result \<longrightarrow> s' = s)"
  by (auto simp add: submitOrder_try_def addOrder_def
      split: fetch_result.splits json_result.splits if_splits sum.splits jsval.splits)

lemma submitOrder_end_false_unchanged:
  "\<not> snd (submitOrder_end r s) \<Longrightarrow> orders (fst (submitOrder_end r s)) = orders s"
  by (cases "submitOrder_try r s")
    (auto simp add: submitOrder_end_def setLoading_def dest: submitOrder_try_result)

lemma submitOrder_end_true_appended:
  "snd (submitOrder_end r s) \<Longrightarrow>
   \<exists>data order xs. r = Response True (Parsed data)
        \<and> get_prop data ''order'' = Inr order \<and> orders s = JArr xs"
  by (cases "submitOrder_try r s")
    (auto simp add: submitOrder_end_def setLoading_def dest: submitOrder_try_result)

lemma submitOrder_end_not_loading: "\<not> isLoading (fst (submitOrder_end r s))"
  by (cases "submitOrder_try r s")
    (auto simp add: submitOrder_end_def setLoading_def)

lemma fetchOrders_end_replaced:
  assumes "r = Response True (Parsed data)" "get_prop data ''orders'' = Inr v"
  shows "fetchOrders_end r s = s\<lparr>orders := (if truthy v then v else JArr []), isLoading := False\<rparr>"
  using assms by (simp add: fetchOrders_end_def fetchOrders_try_def setOrders_def setLoading_def)

lemma fetchOrders_end_unchanged:
  assumes "r = Rejected \<or> r = Response False body \<or> r = Response ok ParseFailure
      \<or> (\<exists>data err. r = Response True (Parsed data) \<and> get_prop data ''orders'' = Inl err)"
  shows "fetchOrders_end r s = s\<lparr>isLoading := False\<rparr>"
  using assms by (auto simp add: fetchOrders_end_def fetchOrders_try_def setLoading_def)

lemma fetchOrders_end_not_loading: "\<not> isLoading (fetchOrders_end r s)"
  by (simp add: fetchOrders_end_def setLoading_def)

lemma get_prop_list_payload:
  "get_prop (payload (snd (get_orders reg))) ''orders'' = Inr (JArr (map JObj reg))"
  by (simp add: get_orders_def field_def)

lemma get_prop_readable:
  "data \<noteq> JNull \<Longrightarrow> data \<noteq> JUndefined \<Longrightarrow> \<exists>v. get_prop data k = Inr v"
  by (cases data) simp_all

section \<open>Clearing the registry\<close>

text \<open>
  C8. DELETE /api/orders empties the registry and answers 200 with
  \<open>{success: true, message: "Cleared N orders"}\<close>, N being the number of orders held
  just before; a list right after the clear answers with no orders and count 0.
\<close>

theorem delete_orders_clears:
  "fst (delete_orders reg) = []
   \<and> snd (delete_orders reg) =
       \<lparr>status = 200,
        payload = JObj [''success'' \<mapsto> JBool True,
                        ''message'' \<mapsto>
                          JStr (''Cleared '' @ string_of_nat (length reg) @ '' orders'')]\<rparr>
   \<and> snd (get_orders (fst (delete_orders reg))) =
       \<lparr>status = 200,
        payload = JObj [''success'' \<mapsto> JBool True,
                        ''orders'' \<mapsto> JArr [],
                        ''count'' \<mapsto> JNum 0]\<rparr>"
  by (simp add: delete_orders_def get_orders_def)

section \<open>Rejection of incomplete bodies\<close>

lemma lacking_iff: "lacking obj k = (\<not> truthy (field obj k))"
  by (simp add: lacking_def field_def split: option.splits)

lemma has_required_iff:
  "has_required b =
     (\<not> (lacking b ''symbol'' \<or> lacking b ''orderType'' \<or> lacking b ''quantity'' \<or> lacking b ''side''))"
  by (auto simp add: has_required_def lacking_iff)

text \<open>
  C3, as amended. POST /api/order answers 400 with
  \<open>{success: false, error: "Missing required fields"}\<close> if and only if at least one
  of \<open>symbol\<close>, \<open>orderType\<close>, \<open>quantity\<close>, \<open>side\<close> is missing from the body or
  carries a falsy value (\<open>null\<close>, \<open>false\<close>, \<open>0\<close>, the empty string); on such a
  rejection the registry is unchanged. Otherwise, for a body that carries no \<open>id\<close> or
  an \<open>id\<close> that can be rendered as a string, the handler answers 201 with
  \<open>{success: true, order}\<close>, \<open>order\<close> being the record appended to the registry.
\<close>

theorem post_order_missing_or_falsy:
  "(status (snd (post_order e b reg)) = 400) =
     (lacking b ''symbol'' \<or> lacking b ''orderType'' \<or> lacking b ''quantity'' \<or> lacking b ''side'')
   \<and> (status (snd (post_order e b reg)) = 400 \<longrightarrow>
        post_order e b reg =
          (reg,
           \<lparr>status = 400,
            payload = JObj [''success'' \<mapsto> JBool False,
                            ''error'' \<mapsto> JStr ''Missing required fields'']\<rparr>))
   \<and> (status (snd (post_order e b reg)) \<noteq> 400 \<longrightarrow> id_renders b \<longrightarrow>
        post_order e b reg =
          (reg @ [new_order e b],
           \<lparr>status = 201,
            payload = JObj [''success'' \<mapsto> JBool True,
                            ''order'' \<mapsto> JObj (new_order e b)]\<rparr>))"
proof (cases "has_required b")
  case True
  then show ?thesis
    using has_required_iff [of b] by (simp add: post_order_status post_order_accept)
next
  case False
  then show ?thesis
    using has_required_iff [of b] by (simp add: post_order_reject)
qed

text \<open>
  The theorem at two bodies: one without \<open>side\<close> (rejected, registry unchanged) and the
  Market order of the test scenario (accepted and stored).
\<close>

theorem post_order_missing_or_falsy_witness:
  "lacking no_side_body ''side''
   \<and> post_order sample_env no_side_body init_registry =
       (init_registry,
        \<lparr>status = 400,
         payload = JObj [''success'' \<mapsto> JBool False,
                         ''error'' \<mapsto> JStr ''Missing required fields'']\<rparr>)
   \<and> \<not> lacking market_body ''symbol'' \<and> \<not> lacking market_body ''orderType''
   \<and> \<not> lacking market_body ''quantity'' \<and> \<not> lacking market_body ''side''
   \<and> id_renders market_body
   \<and> post_order sample_env market_body init_registry =
       (init_registry @ [new_order sample_env market_body],
        \<lparr>status = 201,
         payload = JObj [''success'' \<mapsto> JBool True,
                         ''order'' \<mapsto> JObj (new_order sample_env market_body)]\<rparr>)"
proof -
  have a: "lacking no_side_body ''side''"
    by (simp add: lacking_def no_side_body_def)
  have b: "\<not> lacking market_body ''symbol''" "\<not> lacking market_body ''orderType''"
    "\<not> lacking market_body ''quantity''" "\<not> lacking market_body ''side''"
    by (simp_all add: lacking_def market_body_def)
  show ?thesis
    using a b id_renders_market_body
      post_order_missing_or_falsy [of sample_env no_side_body init_registry]
      post_order_missing_or_falsy [of sample_env market_body init_registry]
    by simp
qed

text \<open>
  The claim as first stated ties the 400 to a missing property and promises 201
  otherwise. A body that supplies all four, with quantity 0, is rejected with the 400
  all the same. And a body that passes the guard with an \<open>id\<close> that is an object with a
  \<open>toString\<close> property is answered 500, after its order was stored: the log line that
  follows \<open>orders.push(order)\<close> cannot render that id.
\<close>

theorem post_order_complete_bodies_refused:
  "zero_quantity_body ''symbol'' \<noteq> None \<and> zero_quantity_body ''orderType'' \<noteq> None
   \<and> zero_quantity_body ''quantity'' \<noteq> None \<and> zero_quantity_body ''side'' \<noteq> None
   \<and> post_order sample_env zero_quantity_body init_registry =
       (init_registry,
        \<lparr>status = 400,
         payload = JObj [''success'' \<mapsto> JBool False,
                         ''error'' \<mapsto> JStr ''Missing required fields'']\<rparr>)
   \<and> \<not> lacking odd_id_body ''symbol'' \<and> \<not> lacking odd_id_body ''orderType''
   \<and> \<not> lacking odd_id_body ''quantity'' \<and> \<not> lacking odd_id_body ''side''
   \<and> post_order sample_env odd_id_body init_registry =
       (init_registry @ [new_order sample_env odd_id_body],
        \<lparr>status = 500,
         payload = JObj [''success'' \<mapsto> JBool False,
                         ''error'' \<mapsto> JStr ''Failed to create order'']\<rparr>)"
proof -
  have "\<not> has_required zero_quantity_body"
    by (simp add: has_required_def field_def zero_quantity_body_def)
  then have zero: "post_order sample_env zero_quantity_body init_registry =
       (init_registry,
        \<lparr>status = 400,
         payload = JObj [''success'' \<mapsto> JBool False,
                         ''error'' \<mapsto> JStr ''Missing required fields'']\<rparr>)"
    by (rule post_order_reject)
  have present: "zero_quantity_body ''symbol'' \<noteq> None" "zero_quantity_body ''orderType'' \<noteq> None"
    "zero_quantity_body ''quantity'' \<noteq> None" "zero_quantity_body ''side'' \<noteq> None"
    by (simp_all add: zero_quantity_body_def)
  have odd: "\<not> lacking odd_id_body ''symbol''" "\<not> lacking odd_id_body ''orderType''"
    "\<not> lacking odd_id_body ''quantity''" "\<not> lacking odd_id_body ''side''"
    by (simp_all add: lacking_def odd_id_body_def)
  have fault: "post_order sample_env odd_id_body init_registry =
       (init_registry @ [new_order sample_env odd_id_body],
        \<lparr>status = 500,
         payload = JObj [''success'' \<mapsto> JBool False,
                         ''error'' \<mapsto> JStr ''Failed to create order'']\<rparr>)"
    by (rule post_order_fault [OF has_required_odd_id_body not_id_renders_odd_id_body])
  from zero present odd fault show ?thesis
    by (simp only: simp_thms)
qed

section \<open>Server-assigned fields\<close>

text \<open>
  C1, evaluated. The body \<open>own_id_body\<close> carries an \<open>id\<close> and a \<open>timestamp\<close> of its
  own. The request is accepted; the stored order keeps the id of the body, not the one
  \<open>generateId\<close> produced, while its timestamp is the server's.
\<close>

theorem post_order_keeps_client_id:
  "status (snd (post_order sample_env own_id_body init_registry)) = 201
   \<and> own_id_body ''id'' = Some (JStr ''x'')
   \<and> generateId sample_env = ''order_1705314600000_4fzyo82mv''
   \<and> map (\<lambda>order. order ''id'') (fst (post_order sample_env own_id_body init_registry))
       = [Some (JStr ''x'')]
   \<and> map (\<lambda>order. order ''timestamp'') (fst (post_order sample_env own_id_body init_registry))
       = [Some (JStr ''2024-01-15T10:30:00.000Z'')]"
proof -
  have "generateId sample_env = ''order_1705314600000_4fzyo82mv''"
    by (simp add: generateId_def sample_env_def substr_def string_of_nat.simps digit_char_def)
  moreover have "own_id_body ''id'' = Some (JStr ''x'')"
    by (simp add: own_id_body_def)
  moreover have "date_iso sample_env = ''2024-01-15T10:30:00.000Z''"
    by (simp add: sample_env_def)
  ultimately show ?thesis
    by (simp add: post_order_accept [OF has_required_own_id_body id_renders_own_id_body]
        init_registry_def new_order_id new_order_timestamp)
qed

text \<open>Hence the id that was stored is not the one the server generated.\<close>

theorem post_order_keeps_client_id_witness:
  "map (\<lambda>order. order ''id'') (fst (post_order sample_env own_id_body init_registry))
     \<noteq> [Some (JStr (generateId sample_env))]"
  using post_order_keeps_client_id by simp

section \<open>Fields copied from the body\<close>

text \<open>
  C9, as amended. For every accepted create request, whatever its order type, the server
  copies \<open>price\<close> from the body as it is: the stored and returned order has a price
  exactly when the body supplies one, and then the same value. A Market order that
  supplies a price keeps it.
\<close>

theorem post_order_copies_price:
  "status (snd (post_order e b reg)) = 201 \<Longrightarrow>
   fst (post_order e b reg) = reg @ [new_order e b]
   \<and> payload (snd (post_order e b reg)) =
       JObj [''success'' \<mapsto> JBool True, ''order'' \<mapsto> JObj (new_order e b)]
   \<and> new_order e b ''price'' = b ''price''"
proof -
  assume "status (snd (post_order e b reg)) = 201"
  then have "has_required b" and "id_renders b"
    by (simp_all add: post_order_status split: if_splits)
  then show ?thesis
    by (simp add: post_order_accept new_order_other)
qed

text \<open>The theorem on the Market order of the test scenario, which has no price.\<close>

theorem post_order_copies_price_witness:
  "status (snd (post_order sample_env market_body init_registry)) = 201
   \<and> fst (post_order sample_env market_body init_registry) = [new_order sample_env market_body]
   \<and> new_order sample_env market_body ''price'' = None"
proof -
  have acc: "status (snd (post_order sample_env market_body init_registry)) = 201"
    by (simp add: post_order_status has_required_market_body id_renders_market_body)
  have "market_body ''price'' = None"
    by (simp add: market_body_def)
  with acc post_order_copies_price [OF acc] show ?thesis
    by (simp add: init_registry_def)
qed

text \<open>
  The claim as first stated fails on a Market order whose body carries a price of 100:
  the request is accepted and the stored order has that price.
\<close>

theorem post_order_market_keeps_price:
  "field market_priced_body ''orderType'' = JStr ''Market''
   \<and> status (snd (post_order sample_env market_priced_body init_registry)) = 201
   \<and> map (\<lambda>order. order ''price'') (fst (post_order sample_env market_priced_body init_registry))
       = [Some (JNum 100)]"
proof -
  have "field market_priced_body ''orderType'' = JStr ''Market''"
    and "market_priced_body ''price'' = Some (JNum 100)"
    by (simp_all add: field_def market_priced_body_def)
  then show ?thesis
    by (simp add: post_order_accept [OF has_required_market_priced_body id_renders_market_priced_body]
        init_registry_def new_order_other)
qed

section \<open>What every stored order satisfies\<close>

lemma conditional_requirement_new_order:
  "conditional_requirement (new_order e b) = conditional_requirement b"
  by (simp add: conditional_requirement_def field_def new_order_other)

lemma handle_registry_subset:
  "set (fst (handle r reg)) \<subseteq> set reg \<union> (\<lambda>(e, b). new_order e b) ` set (stored_posts [r])"
proof (cases r)
  case (PostOrder e b)
  then show ?thesis
    by (simp add: post_order_registry)
qed (simp_all add: get_orders_def delete_orders_def)

lemma run_registry_subset:
  "set (fst (run rs reg)) \<subseteq> set reg \<union> (\<lambda>(e, b). new_order e b) ` set (stored_posts rs)"
proof (induction rs arbitrary: reg)
  case Nil
  then show ?case by simp
next
  case (Cons r rs)
  have "set (fst (run (r # rs) reg))
      \<subseteq> set (fst (handle r reg)) \<union> (\<lambda>(e, b). new_order e b) ` set (stored_posts rs)"
    using Cons.IH [of "fst (handle r reg)"] by (simp only: fst_run_Cons)
  also have "\<dots> \<subseteq> (set reg \<union> (\<lambda>(e, b). new_order e b) ` set (stored_posts [r]))
      \<union> (\<lambda>(e, b). new_order e b) ` set (stored_posts rs)"
    using handle_registry_subset [of r reg] by blast
  also have "\<dots> = set reg \<union> (\<lambda>(e, b). new_order e b) ` set (stored_posts (r # rs))"
    by (subst stored_posts_Cons [of r rs]) (simp add: image_Un Un_assoc)
  finally show ?case .
qed

lemma has_required_stored_posts: "(e, b) \<in> set (stored_posts rs) \<Longrightarrow> has_required b"
proof (induction rs)
  case Nil
  then show ?case by simp
next
  case (Cons r rs)
  then show ?case by (cases r) (auto split: if_splits)
qed

text \<open>
  C2, as amended. Every order in the registry, in every state the server reaches from
  the empty registry by any sequence of requests, has truthy \<open>symbol\<close>, \<open>orderType\<close>,
  \<open>quantity\<close> and \<open>side\<close>: the presence rule, which is all the create handler checks.
  Each such order was made from the body of a create request of the sequence that passed
  the guard, and it satisfies the conditional-requirement rule if and only if that body
  does: the handler copies \<open>orderType\<close>, \<open>price\<close> and \<open>stopPrice\<close> as they are and
  does not check the rule.
\<close>

theorem registry_orders_have_required:
  "\<forall>order \<in> set (fst (run rs init_registry)).
     has_required order
     \<and> (\<exists>(e, b) \<in> set (stored_posts rs).
           order = new_order e b
           \<and> conditional_requirement order = conditional_requirement b)"
proof
  fix order
  assume "order \<in> set (fst (run rs init_registry))"
  with run_registry_subset [of rs init_registry]
  obtain e b where mem: "(e, b) \<in> set (stored_posts rs)" and eq: "order = new_order e b"
    by (auto simp add: init_registry_def)
  from mem have "has_required b"
    by (rule has_required_stored_posts)
  then have "has_required order"
    unfolding eq by (rule has_required_new_order)
  moreover have "conditional_requirement order = conditional_requirement b"
    unfolding eq by (rule conditional_requirement_new_order)
  ultimately show "has_required order
     \<and> (\<exists>(e, b) \<in> set (stored_posts rs).
           order = new_order e b
           \<and> conditional_requirement order = conditional_requirement b)"
    using mem eq by blast
qed

lemma conditional_requirement_stop_limit_body: "conditional_requirement stop_limit_body"
  by (simp add: conditional_requirement_def field_def positive_number_def stop_limit_body_def)

lemma not_conditional_requirement_limit_no_price_body:
  "\<not> conditional_requirement limit_no_price_body"
  by (simp add: conditional_requirement_def field_def positive_number_def limit_no_price_body_def)

text \<open>
  The theorem on a mixed run: a Limit order without a price, a list request, the Stop
  Limit order of the test scenario, and a body without \<open>side\<close>, which is rejected. Both
  stored orders have the required properties; the second satisfies the conditional
  rule, as its body does, and the first does not, as its body does not.
\<close>

theorem registry_orders_have_required_witness:
  "fst (run [PostOrder sample_env limit_no_price_body, GetOrders,
             PostOrder later_env stop_limit_body, PostOrder later_env no_side_body]
          init_registry)
     = [new_order sample_env limit_no_price_body, new_order later_env stop_limit_body]
   \<and> stored_posts [PostOrder sample_env limit_no_price_body, GetOrders,
                    PostOrder later_env stop_limit_body, PostOrder later_env no_side_body]
     = [(sample_env, limit_no_price_body), (later_env, stop_limit_body)]
   \<and> has_required (new_order sample_env limit_no_price_body)
   \<and> has_required (new_order later_env stop_limit_body)
   \<and> conditional_requirement (new_order later_env stop_limit_body)
   \<and> \<not> conditional_requirement (new_order sample_env limit_no_price_body)"
proof -
  let ?rs = "[PostOrder sample_env limit_no_price_body, GetOrders,
              PostOrder later_env stop_limit_body, PostOrder later_env no_side_body]"
  have reg: "fst (run ?rs init_registry)
      = [new_order sample_env limit_no_price_body, new_order later_env stop_limit_body]"
    by (simp add: post_order_registry has_required_limit_no_price_body
        has_required_stop_limit_body not_has_required_no_side_body get_orders_def
        init_registry_def)
  have st: "stored_posts ?rs = [(sample_env, limit_no_price_body), (later_env, stop_limit_body)]"
    by (simp add: has_required_limit_no_price_body has_required_stop_limit_body
        not_has_required_no_side_body)
  from registry_orders_have_required [of ?rs]
  have "has_required (new_order sample_env limit_no_price_body)"
    and "has_required (new_order later_env stop_limit_body)"
    unfolding reg by simp_all
  with reg st show ?thesis
    by (simp add: conditional_requirement_new_order conditional_requirement_stop_limit_body
        not_conditional_requirement_limit_no_price_body)
qed

text \<open>
  The conditional-requirement rule itself is not an invariant: a Limit order without a
  price is accepted and stored.
\<close>

theorem registry_admits_limit_without_price:
  "status (snd (post_order sample_env limit_no_price_body init_registry)) = 201
   \<and> field limit_no_price_body ''orderType'' = JStr ''Limit''
   \<and> \<not> list_all conditional_requirement
         (fst (run [PostOrder sample_env limit_no_price_body] init_registry))"
proof -
  have t: "field limit_no_price_body ''orderType'' = JStr ''Limit''"
    by (simp add: field_def limit_no_price_body_def)
  have "\<not> conditional_requirement (new_order sample_env limit_no_price_body)"
    by (simp add: conditional_requirement_new_order
        not_conditional_requirement_limit_no_price_body)
  with t show ?thesis
    by (simp add: post_order_accept
        [OF has_required_limit_no_price_body id_renders_limit_no_price_body] init_registry_def)
qed

section \<open>Ids and timestamps across a run\<close>

lemma created_ids:
  "map (\<lambda>order. order ''id'') (created_orders (snd (run rs reg)))
     = map (\<lambda>(e, b). new_order e b ''id'') (accepted_posts rs)"
  by (simp add: created_orders_run case_prod_unfold)

lemma created_timestamps:
  "map timestamp_of (created_orders (snd (run rs reg)))
     = map (\<lambda>(e, b). date_iso e) (accepted_posts rs)"
  by (simp add: created_orders_run timestamp_of_def new_order_timestamp case_prod_unfold)

lemma generated_ids_distinct:
  assumes no_id: "\<forall>(e, b) \<in> set xs. b ''id'' = None"
    and draws: "distinct (map (\<lambda>(e, b). (date_now e, substr 2 9 (random36 e))) xs)"
  shows "distinct (map (\<lambda>(e, b). new_order e b ''id'') xs)"
proof (rule distinct_map_via [OF draws])
  fix x y
  assume x: "x \<in> set xs" and y: "y \<in> set xs"
    and eq: "(case x of (e, b) \<Rightarrow> new_order e b ''id'') = (case y of (e, b) \<Rightarrow> new_order e b ''id'')"
  obtain e b where xe: "x = (e, b)" by (cases x)
  obtain e' b' where ye: "y = (e', b')" by (cases y)
  from no_id x xe have nb: "b ''id'' = None" by auto
  from no_id y ye have nb': "b' ''id'' = None" by auto
  from eq have "new_order e b ''id'' = new_order e' b' ''id''"
    unfolding xe ye by (simp only: prod.case)
  then have "Some (JStr (generateId e)) = Some (JStr (generateId e'))"
    by (simp only: new_order_id nb nb' option.case)
  then have "generateId e = generateId e'"
    by (simp only: option.inject jsval.inject)
  then have "date_now e = date_now e' \<and> substr 2 9 (random36 e) = substr 2 9 (random36 e')"
    by (rule generateId_inj)
  then show "(case x of (e, b) \<Rightarrow> (date_now e, substr 2 9 (random36 e)))
      = (case y of (e, b) \<Rightarrow> (date_now e, substr 2 9 (random36 e)))"
    unfolding xe ye by simp
qed

text \<open>
  C4, as amended, in two parts, each on its own condition. Across any sequence of
  requests, with \<open>accepted_posts\<close> the create requests answered 201: if none of their
  bodies carries an \<open>id\<close> property and the pairs (clock reading, random suffix) that
  \<open>generateId\<close> drew for them are pairwise different, the returned ids are pairwise
  different; and if the clock's ISO readings taken at each acceptance are
  non-decreasing, so are the returned timestamps, in submission order (compared as
  strings, which for the fixed-width rendering of \<open>toISOString\<close> is the order in
  time).
\<close>

theorem created_ids_distinct_timestamps_sorted:
  "((\<forall>(e, b) \<in> set (accepted_posts rs). b ''id'' = None) \<longrightarrow>
    distinct (map (\<lambda>(e, b). (date_now e, substr 2 9 (random36 e))) (accepted_posts rs)) \<longrightarrow>
    distinct (map (\<lambda>order. order ''id'') (created_orders (snd (run rs reg)))))
   \<and> (sorted (map (\<lambda>(e, b). date_iso e) (accepted_posts rs)) \<longrightarrow>
       sorted (map timestamp_of (created_orders (snd (run rs reg)))))"
proof (intro conjI impI)
  assume "\<forall>(e, b) \<in> set (accepted_posts rs). b ''id'' = None"
    and "distinct (map (\<lambda>(e, b). (date_now e, substr 2 9 (random36 e))) (accepted_posts rs))"
  then have "distinct (map (\<lambda>(e, b). new_order e b ''id'') (accepted_posts rs))"
    by (rule generated_ids_distinct)
  then show "distinct (map (\<lambda>order. order ''id'') (created_orders (snd (run rs reg))))"
    by (simp only: created_ids)
next
  assume "sorted (map (\<lambda>(e, b). date_iso e) (accepted_posts rs))"
  then show "sorted (map timestamp_of (created_orders (snd (run rs reg))))"
    by (simp only: created_timestamps)
qed

text \<open>
  The theorem on two runs. In the first, two accepted creates with a list request
  between them are drawn 250 ms apart. In the second the draws differ but the clock was
  reset to an earlier time between the two creates: the ids are different all the same.
\<close>

theorem created_ids_distinct_timestamps_sorted_witness:
  "accepted_posts [PostOrder sample_env market_body, GetOrders, PostOrder later_env stop_limit_body]
     = [(sample_env, market_body), (later_env, stop_limit_body)]
   \<and> market_body ''id'' = None \<and> stop_limit_body ''id'' = None
   \<and> distinct (map (\<lambda>order. order ''id'')
         (created_orders (snd (run [PostOrder sample_env market_body, GetOrders,
                                    PostOrder later_env stop_limit_body] init_registry))))
   \<and> sorted (map timestamp_of
         (created_orders (snd (run [PostOrder sample_env market_body, GetOrders,
                                    PostOrder later_env stop_limit_body] init_registry))))
   \<and> accepted_posts [PostOrder sample_env market_body, PostOrder earlier_env stop_limit_body]
     = [(sample_env, market_body), (earlier_env, stop_limit_body)]
   \<and> distinct (map (\<lambda>order. order ''id'')
         (created_orders (snd (run [PostOrder sample_env market_body,
                                    PostOrder earlier_env stop_limit_body] init_registry))))"
proof -
  let ?rs = "[PostOrder sample_env market_body, GetOrders, PostOrder later_env stop_limit_body]"
  let ?rewound = "[PostOrder sample_env market_body, PostOrder earlier_env stop_limit_body]"
  have acc: "accepted_posts ?rs = [(sample_env, market_body), (later_env, stop_limit_body)]"
    by (simp add: accepted_posts_def has_required_market_body has_required_stop_limit_body
        id_renders_market_body id_renders_stop_limit_body)
  have acc': "accepted_posts ?rewound = [(sample_env, market_body), (earlier_env, stop_limit_body)]"
    by (simp add: accepted_posts_def has_required_market_body has_required_stop_limit_body
        id_renders_market_body id_renders_stop_limit_body)
  have ids: "market_body ''id'' = None" "stop_limit_body ''id'' = None"
    by (simp_all add: market_body_def stop_limit_body_def)
  have no_id: "\<forall>(e, b) \<in> set (accepted_posts ?rs). b ''id'' = None"
    unfolding acc by (simp add: ids)
  have no_id': "\<forall>(e, b) \<in> set (accepted_posts ?rewound). b ''id'' = None"
    unfolding acc' by (simp add: ids)
  have draws: "distinct (map (\<lambda>(e, b). (date_now e, substr 2 9 (random36 e))) (accepted_posts ?rs))"
    unfolding acc by (simp add: sample_env_def later_env_def)
  have draws': "distinct (map (\<lambda>(e, b). (date_now e, substr 2 9 (random36 e))) (accepted_posts ?rewound))"
    unfolding acc' by (simp add: sample_env_def earlier_env_def)
  have clock: "sorted (map (\<lambda>(e, b). date_iso e) (accepted_posts ?rs))"
    unfolding acc by (simp add: sample_env_def later_env_def)
  from created_ids_distinct_timestamps_sorted [of ?rs init_registry] no_id draws clock
  have one: "distinct (map (\<lambda>order. order ''id'') (created_orders (snd (run ?rs init_registry))))"
    and two: "sorted (map timestamp_of (created_orders (snd (run ?rs init_registry))))"
    by blast+
  from created_ids_distinct_timestamps_sorted [of ?rewound init_registry] no_id' draws'
  have three: "distinct (map (\<lambda>order. order ''id'') (created_orders (snd (run ?rewound init_registry))))"
    by blast
  from acc acc' ids one two three show ?thesis
    by (simp only: simp_thms)
qed

text \<open>
  The claim as first stated promises different ids and non-decreasing timestamps
  outright. In this run of three accepted creates, none with an \<open>id\<close> in its body, the
  first two fall in the same millisecond and draw random numbers with the same first
  nine digits in base 36, and are given the same id: \<open>generateId\<close> keeps only those
  digits and checks nothing against the registry. Before the third the clock was reset
  to a second earlier, and its timestamp is earlier than those returned before it.
\<close>

theorem created_ids_collide:
  "random36 sample_env \<noteq> random36 twin_env
   \<and> map status (snd (run [PostOrder sample_env market_body, PostOrder twin_env stop_limit_body,
                           PostOrder earlier_env market_priced_body] init_registry))
       = [201, 201, 201]
   \<and> market_body ''id'' = None \<and> stop_limit_body ''id'' = None
   \<and> market_priced_body ''id'' = None
   \<and> map (\<lambda>order. order ''id'')
         (created_orders (snd (run [PostOrder sample_env market_body,
                                    PostOrder twin_env stop_limit_body,
                                    PostOrder earlier_env market_priced_body] init_registry)))
       = [Some (JStr ''order_1705314600000_4fzyo82mv''),
          Some (JStr ''order_1705314600000_4fzyo82mv''),
          Some (JStr ''order_1705314599000_9q3m5t0wd'')]
   \<and> map timestamp_of
         (created_orders (snd (run [PostOrder sample_env market_body,
                                    PostOrder twin_env stop_limit_body,
                                    PostOrder earlier_env market_priced_body] init_registry)))
       = [''2024-01-15T10:30:00.000Z'', ''2024-01-15T10:30:00.000Z'',
          ''2024-01-15T10:29:59.000Z'']
   \<and> \<not> sorted [''2024-01-15T10:30:00.000Z'', ''2024-01-15T10:30:00.000Z'',
                 ''2024-01-15T10:29:59.000Z'']"
proof -
  let ?rs = "[PostOrder sample_env market_body, PostOrder twin_env stop_limit_body,
              PostOrder earlier_env market_priced_body]"
  have ids: "market_body ''id'' = None" "stop_limit_body ''id'' = None"
    "market_priced_body ''id'' = None"
    by (simp_all add: market_body_def stop_limit_body_def market_priced_body_def)
  have rnd: "random36 sample_env \<noteq> random36 twin_env"
    by (simp add: sample_env_def twin_env_def)
  have acc: "accepted_posts ?rs
      = [(sample_env, market_body), (twin_env, stop_limit_body), (earlier_env, market_priced_body)]"
    by (simp add: accepted_posts_def has_required_market_body has_required_stop_limit_body
        has_required_market_priced_body id_renders_market_body id_renders_stop_limit_body
        id_renders_market_priced_body)
  have st: "map status (snd (run ?rs init_registry)) = [201, 201, 201]"
    by (simp add: post_order_status has_required_market_body has_required_stop_limit_body
        has_required_market_priced_body id_renders_market_body id_renders_stop_limit_body
        id_renders_market_priced_body)
  have i: "map (\<lambda>order. order ''id'') (created_orders (snd (run ?rs init_registry)))
       = [Some (JStr ''order_1705314600000_4fzyo82mv''),
          Some (JStr ''order_1705314600000_4fzyo82mv''),
          Some (JStr ''order_1705314599000_9q3m5t0wd'')]"
    unfolding created_ids acc
    by (simp add: new_order_id ids generateId_sample_env generateId_twin_env
        generateId_earlier_env)
  have t: "map timestamp_of (created_orders (snd (run ?rs init_registry)))
       = [''2024-01-15T10:30:00.000Z'', ''2024-01-15T10:30:00.000Z'',
          ''2024-01-15T10:29:59.000Z'']"
    unfolding created_timestamps acc
    by (simp add: sample_env_def twin_env_def earlier_env_def)
  have u: "\<not> sorted [''2024-01-15T10:30:00.000Z'', ''2024-01-15T10:30:00.000Z'',
                 ''2024-01-15T10:29:59.000Z'']"
    by simp
  from rnd st ids i t u show ?thesis
    by (simp only: simp_thms)
qed

section \<open>Creating, then listing\<close>

text \<open>
  C5. Whatever the number N of valid inputs (bodies that carry the four required
  properties), creating them one after the other on the empty registry and then listing
  answers 200 with exactly N orders, in submission order, with count N; the i-th order
  agrees with the i-th input on every property other than \<open>id\<close> and \<open>timestamp\<close>.
  (Each create is answered 201, or 500 where the id of the stored order cannot be
  rendered.)
\<close>

theorem list_after_creates:
  assumes valid: "\<forall>(e, b) \<in> set inputs. has_required b"
  shows "let rs = map (\<lambda>(e, b). PostOrder e b) inputs;
             reg = fst (run rs init_registry)
         in length reg = length inputs
            \<and> (\<forall>i < length inputs. \<forall>k. k \<noteq> ''id'' \<longrightarrow> k \<noteq> ''timestamp'' \<longrightarrow>
                   (reg ! i) k = snd (inputs ! i) k)
            \<and> snd (get_orders reg) =
                 \<lparr>status = 200,
                  payload = JObj [''success'' \<mapsto> JBool True,
                                  ''orders'' \<mapsto> JArr (map JObj reg),
                                  ''count'' \<mapsto> JNum (of_nat (length inputs))]\<rparr>
            \<and> map status (snd (run rs init_registry))
                 = map (\<lambda>(e, b). if id_renders b then 201 else 500) inputs"
proof -
  from valid have "list_all (\<lambda>(e, b). has_required b) inputs"
    by (simp add: list_all_iff)
  from run_posts [OF this, of init_registry]
  have reg: "fst (run (map (\<lambda>(e, b). PostOrder e b) inputs) init_registry)
        = map (\<lambda>(e, b). new_order e b) inputs"
    and st: "map status (snd (run (map (\<lambda>(e, b). PostOrder e b) inputs) init_registry))
        = map (\<lambda>(e, b). if id_renders b then 201 else 500) inputs"
    by (simp_all add: init_registry_def)
  have "\<forall>i < length inputs. \<forall>k. k \<noteq> ''id'' \<longrightarrow> k \<noteq> ''timestamp'' \<longrightarrow>
      (map (\<lambda>(e, b). new_order e b) inputs ! i) k = snd (inputs ! i) k"
    by (simp add: case_prod_unfold new_order_other)
  with reg st show ?thesis
    by (simp add: Let_def get_orders_def)
qed

text \<open>
  The theorem on the Market and the Stop Limit order of the test scenarios, followed by
  the body whose id cannot be rendered: all three are listed.
\<close>

theorem list_after_creates_witness:
  "has_required market_body \<and> has_required stop_limit_body \<and> has_required odd_id_body
   \<and> length (fst (run [PostOrder sample_env market_body, PostOrder later_env stop_limit_body,
                       PostOrder later_env odd_id_body] init_registry)) = 3
   \<and> (fst (run [PostOrder sample_env market_body, PostOrder later_env stop_limit_body,
                PostOrder later_env odd_id_body] init_registry) ! 1) ''price''
       = Some (JNum 2450)
   \<and> (fst (run [PostOrder sample_env market_body, PostOrder later_env stop_limit_body,
                PostOrder later_env odd_id_body] init_registry) ! 0) ''symbol''
       = Some (JStr ''NIFTY'')
   \<and> (fst (run [PostOrder sample_env market_body, PostOrder later_env stop_limit_body,
                PostOrder later_env odd_id_body] init_registry) ! 2) ''quantity''
       = Some (JNum 10)
   \<and> map status (snd (run [PostOrder sample_env market_body, PostOrder later_env stop_limit_body,
                           PostOrder later_env odd_id_body] init_registry))
       = [201, 201, 500]"
proof -
  have valid: "\<forall>(e, b) \<in> set [(sample_env, market_body), (later_env, stop_limit_body),
      (later_env, odd_id_body)]. has_required b"
    by (simp add: has_required_market_body has_required_stop_limit_body has_required_odd_id_body)
  have "stop_limit_body ''price'' = Some (JNum 2450)" "market_body ''symbol'' = Some (JStr ''NIFTY'')"
    "odd_id_body ''quantity'' = Some (JNum 10)"
    by (simp_all add: stop_limit_body_def market_body_def odd_id_body_def)
  with list_after_creates [OF valid] show ?thesis
    by (simp add: Let_def has_required_market_body has_required_stop_limit_body
        has_required_odd_id_body id_renders_market_body id_renders_stop_limit_body
        not_id_renders_odd_id_body)
qed

section \<open>The store's asynchronous actions\<close>

lemma submitOrder_unfold:
  "in_flight (submitOrder fetch orderData s) = s\<lparr>isLoading := True\<rparr>
   \<and> settled (submitOrder fetch orderData s)
       = fst (submitOrder_end (fetch (Post ''/api/order'' orderData)) (s\<lparr>isLoading := True\<rparr>))
   \<and> resolved (submitOrder fetch orderData s)
       = snd (submitOrder_end (fetch (Post ''/api/order'' orderData)) (s\<lparr>isLoading := True\<rparr>))"
  by (simp add: submitOrder_def setLoading_def Let_def)

lemma fetchOrders_unfold:
  "fetchOrders fetch s =
     \<lparr>in_flight = s\<lparr>isLoading := True\<rparr>,
      settled = fetchOrders_end (fetch (Get ''/api/orders'')) (s\<lparr>isLoading := True\<rparr>)\<rparr>"
  by (simp add: fetchOrders_def setLoading_def Let_def)

lemma action_run_eqI:
  "in_flight r = a \<Longrightarrow> settled r = b \<Longrightarrow> (r :: action_run) = \<lparr>in_flight = a, settled = b\<rparr>"
  by (cases r) simp

lemma submit_run_eqI:
  "in_flight r = a \<Longrightarrow> settled r = b \<Longrightarrow> resolved r = c \<Longrightarrow>
   (r :: submit_run) = \<lparr>in_flight = a, settled = b, resolved = c\<rparr>"
  by (cases r) simp

text \<open>
  C6, as amended. While the request of \<open>submitOrder\<close> is in flight, \<open>isLoading\<close> is true
  and the list is as it was; when the action completes, \<open>isLoading\<close> is false on every
  path. On an ok response whose body parses to a value other than \<open>null\<close>
  (\<open>undefined\<close> is no JSON value), the local \<open>orders\<close> being an array, \<open>data.order\<close>
  is appended to the tail of the list and the action resolves to \<open>true\<close>. When
  \<open>fetch\<close> is rejected, the response is not ok, or the body does not parse, it resolves
  to \<open>false\<close> and the store is as before. In general it resolves to \<open>true\<close> only by
  such an append, and whenever it resolves to \<open>false\<close> the list is unchanged.
\<close>

theorem submitOrder_outcomes:
  "in_flight (submitOrder fetch orderData s) = s\<lparr>isLoading := True\<rparr>
   \<and> \<not> isLoading (settled (submitOrder fetch orderData s))
   \<and> (\<forall>data xs.
         fetch (Post ''/api/order'' orderData) = Response True (Parsed data) \<longrightarrow>
         data \<noteq> JNull \<longrightarrow> data \<noteq> JUndefined \<longrightarrow> orders s = JArr xs \<longrightarrow>
         (\<exists>order. get_prop data ''order'' = Inr order
            \<and> settled (submitOrder fetch orderData s)
                = \<lparr>orders = JArr (xs @ [order]), isLoading = False\<rparr>
            \<and> resolved (submitOrder fetch orderData s)))
   \<and> (\<forall>ok body.
         fetch (Post ''/api/order'' orderData) = Rejected
         \<or> fetch (Post ''/api/order'' orderData) = Response False body
         \<or> fetch (Post ''/api/order'' orderData) = Response ok ParseFailure \<longrightarrow>
         settled (submitOrder fetch orderData s) = \<lparr>orders = orders s, isLoading = False\<rparr>
         \<and> \<not> resolved (submitOrder fetch orderData s))
   \<and> (resolved (submitOrder fetch orderData s) \<longrightarrow>
        (\<exists>data order xs. fetch (Post ''/api/order'' orderData) = Response True (Parsed data)
           \<and> get_prop data ''order'' = Inr order \<and> orders s = JArr xs))
   \<and> (\<not> resolved (submitOrder fetch orderData s) \<longrightarrow>
        orders (settled (submitOrder fetch orderData s)) = orders s)"
proof -
  let ?r = "fetch (Post ''/api/order'' orderData)"
  let ?s = "s\<lparr>isLoading := True\<rparr>"
  note unf = submitOrder_unfold [of fetch orderData s]
  have rec: "\<And>v. ?s\<lparr>orders := v, isLoading := False\<rparr> = \<lparr>orders = v, isLoading = False\<rparr>"
    by simp
  have rec': "?s\<lparr>isLoading := False\<rparr> = \<lparr>orders = orders s, isLoading = False\<rparr>"
    by simp
  have c0: "in_flight (submitOrder fetch orderData s) = ?s"
    using unf by simp
  have c1: "\<not> isLoading (settled (submitOrder fetch orderData s))"
    using unf submitOrder_end_not_loading [of ?r ?s] by simp
  have c2: "\<forall>data xs. ?r = Response True (Parsed data) \<longrightarrow>
         data \<noteq> JNull \<longrightarrow> data \<noteq> JUndefined \<longrightarrow> orders s = JArr xs \<longrightarrow>
         (\<exists>order. get_prop data ''order'' = Inr order
            \<and> settled (submitOrder fetch orderData s)
                = \<lparr>orders = JArr (xs @ [order]), isLoading = False\<rparr>
            \<and> resolved (submitOrder fetch orderData s))"
  proof (intro allI impI)
    fix data xs
    assume r: "?r = Response True (Parsed data)" and "data \<noteq> JNull" "data \<noteq> JUndefined"
      and xs: "orders s = JArr xs"
    then obtain order where g: "get_prop data ''order'' = Inr order"
      using get_prop_readable by blast
    from xs have "orders ?s = JArr xs" by simp
    from submitOrder_end_appended [OF r g this]
    have "submitOrder_end ?r ?s = (\<lparr>orders = JArr (xs @ [order]), isLoading = False\<rparr>, True)"
      by (simp only: rec)
    with unf g show "\<exists>order. get_prop data ''order'' = Inr order
            \<and> settled (submitOrder fetch orderData s)
                = \<lparr>orders = JArr (xs @ [order]), isLoading = False\<rparr>
            \<and> resolved (submitOrder fetch orderData s)"
      by simp
  qed
  have c3: "\<forall>ok body. ?r = Rejected \<or> ?r = Response False body \<or> ?r = Response ok ParseFailure \<longrightarrow>
         settled (submitOrder fetch orderData s) = \<lparr>orders = orders s, isLoading = False\<rparr>
         \<and> \<not> resolved (submitOrder fetch orderData s)"
  proof (intro allI impI)
    fix ok body
    assume "?r = Rejected \<or> ?r = Response False body \<or> ?r = Response ok ParseFailure"
    then have "submitOrder_end ?r ?s = (\<lparr>orders = orders s, isLoading = False\<rparr>, False)"
      using submitOrder_end_failed [of ?r body ok ?s] by (simp only: rec')
    with unf show "settled (submitOrder fetch orderData s) = \<lparr>orders = orders s, isLoading = False\<rparr>
         \<and> \<not> resolved (submitOrder fetch orderData s)"
      by simp
  qed
  have c4: "resolved (submitOrder fetch orderData s) \<longrightarrow>
        (\<exists>data order xs. ?r = Response True (Parsed data)
           \<and> get_prop data ''order'' = Inr order \<and> orders s = JArr xs)"
    using unf submitOrder_end_true_appended [of ?r ?s] by simp
  have c5: "\<not> resolved (submitOrder fetch orderData s) \<longrightarrow>
        orders (settled (submitOrder fetch orderData s)) = orders s"
    using unf submitOrder_end_false_unchanged [of ?r ?s] by simp
  from c0 c1 c2 c3 c4 c5 show ?thesis by blast
qed

text \<open>
  The theorem on three networks: one that answers with the server's 201 for the Market
  order, one that answers with the server's 400, and one that fails.
\<close>

theorem submitOrder_outcomes_witness:
  "submitOrder
     (\<lambda>req. Response True (Parsed (payload (snd (post_order sample_env market_body init_registry)))))
     (JObj market_body) init_store
     = \<lparr>in_flight = \<lparr>orders = JArr [], isLoading = True\<rparr>,
        settled = \<lparr>orders = JArr [JObj (new_order sample_env market_body)], isLoading = False\<rparr>,
        resolved = True\<rparr>
   \<and> submitOrder
     (\<lambda>req. Response False (Parsed (payload (snd (post_order sample_env no_side_body init_registry)))))
     (JObj no_side_body) sample_store
     = \<lparr>in_flight = sample_store\<lparr>isLoading := True\<rparr>, settled = sample_store, resolved = False\<rparr>
   \<and> submitOrder (\<lambda>req. Rejected) (JObj market_body) sample_store
     = \<lparr>in_flight = sample_store\<lparr>isLoading := True\<rparr>, settled = sample_store, resolved = False\<rparr>"
proof -
  let ?created = "payload (snd (post_order sample_env market_body init_registry))"
  let ?ok = "\<lambda>req :: http_request. Response True (Parsed ?created)"
  let ?refused = "\<lambda>req :: http_request.
    Response False (Parsed (payload (snd (post_order sample_env no_side_body init_registry))))"
  let ?down = "\<lambda>req :: http_request. Rejected"
  have created: "?created = JObj [''success'' \<mapsto> JBool True,
      ''order'' \<mapsto> JObj (new_order sample_env market_body)]"
    by (simp add: post_order_accept [OF has_required_market_body id_renders_market_body])
  have g: "get_prop ?created ''order'' = Inr (JObj (new_order sample_env market_body))"
    unfolding created by (simp add: field_def)
  have nn: "?created \<noteq> JNull" "?created \<noteq> JUndefined"
    unfolding created by simp_all
  have o: "orders init_store = JArr []"
    and i: "init_store\<lparr>isLoading := True\<rparr> = \<lparr>orders = JArr [], isLoading = True\<rparr>"
    by (simp_all add: init_store_def)
  have st: "\<lparr>orders = orders sample_store, isLoading = False\<rparr> = sample_store"
    by (simp add: sample_store_def)
  note one = submitOrder_outcomes [of ?ok "JObj market_body" init_store]
  from one have a1: "in_flight (submitOrder ?ok (JObj market_body) init_store)
      = \<lparr>orders = JArr [], isLoading = True\<rparr>"
    by (simp only: i)
  from one nn o have "\<exists>order. get_prop ?created ''order'' = Inr order
      \<and> settled (submitOrder ?ok (JObj market_body) init_store)
          = \<lparr>orders = JArr ([] @ [order]), isLoading = False\<rparr>
      \<and> resolved (submitOrder ?ok (JObj market_body) init_store)"
    by blast
  with g have a2: "settled (submitOrder ?ok (JObj market_body) init_store)
        = \<lparr>orders = JArr [JObj (new_order sample_env market_body)], isLoading = False\<rparr>"
    and a3: "resolved (submitOrder ?ok (JObj market_body) init_store) = True"
    by auto
  note two = submitOrder_outcomes [of ?refused "JObj no_side_body" sample_store]
  from two have b1: "in_flight (submitOrder ?refused (JObj no_side_body) sample_store)
      = sample_store\<lparr>isLoading := True\<rparr>"
    by (rule conjunct1)
  from two have "settled (submitOrder ?refused (JObj no_side_body) sample_store)
        = \<lparr>orders = orders sample_store, isLoading = False\<rparr>
      \<and> \<not> resolved (submitOrder ?refused (JObj no_side_body) sample_store)"
    by blast
  then have b2: "settled (submitOrder ?refused (JObj no_side_body) sample_store) = sample_store"
    and b3: "resolved (submitOrder ?refused (JObj no_side_body) sample_store) = False"
    by (simp_all only: st simp_thms)
  note three = submitOrder_outcomes [of ?down "JObj market_body" sample_store]
  from three have c1: "in_flight (submitOrder ?down (JObj market_body) sample_store)
      = sample_store\<lparr>isLoading := True\<rparr>"
    by (rule conjunct1)
  from three have "settled (submitOrder ?down (JObj market_body) sample_store)
        = \<lparr>orders = orders sample_store, isLoading = False\<rparr>
      \<and> \<not> resolved (submitOrder ?down (JObj market_body) sample_store)"
    by blast
  then have c2: "settled (submitOrder ?down (JObj market_body) sample_store) = sample_store"
    and c3: "resolved (submitOrder ?down (JObj market_body) sample_store) = False"
    by (simp_all only: st simp_thms)
  show ?thesis
    using submit_run_eqI [OF a1 a2 a3] submit_run_eqI [OF b1 b2 b3] submit_run_eqI [OF c1 c2 c3]
    by (intro conjI)
qed

text \<open>
  The claim as first stated promises the append and \<open>true\<close> on every ok response. Two
  ok responses on which the action resolves to \<open>false\<close> and leaves the store as it
  was: one whose body is \<open>null\<close>, from which \<open>data.order\<close> cannot be read; and the
  server's 201 arriving at a store whose \<open>orders\<close> an earlier list response
  \<open>{orders: "abc"}\<close> has set to a string, so that \<open>this.orders.push\<close> is no function.
  Both raise a TypeError inside the \<open>try\<close> block.
\<close>

theorem submitOrder_ok_response_resolves_false:
  "submitOrder (\<lambda>req. Response True (Parsed JNull)) (JObj market_body) sample_store
     = \<lparr>in_flight = sample_store\<lparr>isLoading := True\<rparr>, settled = sample_store, resolved = False\<rparr>
   \<and> settled (fetchOrders (\<lambda>req. Response True (Parsed (JObj [''orders'' \<mapsto> JStr ''abc''])))
        init_store)
     = \<lparr>orders = JStr ''abc'', isLoading = False\<rparr>
   \<and> submitOrder
       (\<lambda>req. Response True (Parsed (JObj [''success'' \<mapsto> JBool True,
          ''order'' \<mapsto> JObj (new_order sample_env market_body)])))
       (JObj market_body) \<lparr>orders = JStr ''abc'', isLoading = False\<rparr>
     = \<lparr>in_flight = \<lparr>orders = JStr ''abc'', isLoading = True\<rparr>,
        settled = \<lparr>orders = JStr ''abc'', isLoading = False\<rparr>, resolved = False\<rparr>"
  by (simp add: submitOrder_def submitOrder_end_def submitOrder_try_def addOrder_def
      fetchOrders_def fetchOrders_end_def fetchOrders_try_def setOrders_def
      setLoading_def sample_store_def init_store_def field_def Let_def)

text \<open>
  C7. While the request of \<open>fetchOrders\<close> is in flight, \<open>isLoading\<close> is true and the
  list is as it was; when the action completes, \<open>isLoading\<close> is false on every path. On
  an ok response whose parsed body carries a truthy \<open>orders\<close>, the local list becomes
  that value, whatever it held before; for the list response of the server this is the
  registry's content. When \<open>fetch\<close> is rejected or the body does not parse (or reading
  \<open>orders\<close> from it raises), and likewise when the response is not ok, the local list
  is unchanged.
\<close>

theorem fetchOrders_outcomes:
  "in_flight (fetchOrders fetch s) = s\<lparr>isLoading := True\<rparr>
   \<and> \<not> isLoading (settled (fetchOrders fetch s))
   \<and> (\<forall>data v.
         fetch (Get ''/api/orders'') = Response True (Parsed data) \<longrightarrow>
         get_prop data ''orders'' = Inr v \<longrightarrow> truthy v \<longrightarrow>
         settled (fetchOrders fetch s) = \<lparr>orders = v, isLoading = False\<rparr>)
   \<and> (\<forall>reg.
         fetch (Get ''/api/orders'') = Response True (Parsed (payload (snd (get_orders reg)))) \<longrightarrow>
         settled (fetchOrders fetch s) = \<lparr>orders = JArr (map JObj reg), isLoading = False\<rparr>)
   \<and> (\<forall>ok body.
         fetch (Get ''/api/orders'') = Rejected
         \<or> fetch (Get ''/api/orders'') = Response False body
         \<or> fetch (Get ''/api/orders'') = Response ok ParseFailure
         \<or> (\<exists>data err. fetch (Get ''/api/orders'') = Response True (Parsed data)
               \<and> get_prop data ''orders'' = Inl err) \<longrightarrow>
         settled (fetchOrders fetch s) = \<lparr>orders = orders s, isLoading = False\<rparr>)"
proof -
  let ?r = "fetch (Get ''/api/orders'')"
  let ?s = "s\<lparr>isLoading := True\<rparr>"
  have unf: "in_flight (fetchOrders fetch s) = ?s"
    "settled (fetchOrders fetch s) = fetchOrders_end ?r ?s"
    by (simp_all add: fetchOrders_unfold)
  have rec': "?s\<lparr>isLoading := False\<rparr> = \<lparr>orders = orders s, isLoading = False\<rparr>"
    by simp
  have c1: "\<not> isLoading (settled (fetchOrders fetch s))"
    unfolding unf by (rule fetchOrders_end_not_loading)
  have c2: "\<forall>data v. ?r = Response True (Parsed data) \<longrightarrow>
         get_prop data ''orders'' = Inr v \<longrightarrow> truthy v \<longrightarrow>
         settled (fetchOrders fetch s) = \<lparr>orders = v, isLoading = False\<rparr>"
    unfolding unf by (simp add: fetchOrders_end_replaced)
  have c3: "\<forall>reg. ?r = Response True (Parsed (payload (snd (get_orders reg)))) \<longrightarrow>
         settled (fetchOrders fetch s) = \<lparr>orders = JArr (map JObj reg), isLoading = False\<rparr>"
    unfolding unf by (simp add: fetchOrders_end_replaced [OF _ get_prop_list_payload])
  have c4: "\<forall>ok body. ?r = Rejected \<or> ?r = Response False body \<or> ?r = Response ok ParseFailure
         \<or> (\<exists>data err. ?r = Response True (Parsed data) \<and> get_prop data ''orders'' = Inl err) \<longrightarrow>
         settled (fetchOrders fetch s) = \<lparr>orders = orders s, isLoading = False\<rparr>"
    unfolding unf using fetchOrders_end_unchanged [of ?r _ _ ?s] rec' by metis
  from unf(1) c1 c2 c3 c4 show ?thesis by blast
qed

text \<open>
  The theorem on a store that holds one order: the server's list of two other orders
  replaces it, and a failed request leaves it.
\<close>

theorem fetchOrders_outcomes_witness:
  "fetchOrders
     (\<lambda>req. Response True (Parsed (payload (snd (get_orders
        [new_order later_env stop_limit_body, new_order later_env market_body])))))
     sample_store
     = \<lparr>in_flight = sample_store\<lparr>isLoading := True\<rparr>,
        settled = \<lparr>orders = JArr [JObj (new_order later_env stop_limit_body),
                                   JObj (new_order later_env market_body)],
                   isLoading = False\<rparr>\<rparr>
   \<and> fetchOrders (\<lambda>req. Rejected) sample_store
     = \<lparr>in_flight = sample_store\<lparr>isLoading := True\<rparr>, settled = sample_store\<rparr>
   \<and> fetchOrders (\<lambda>req. Response True ParseFailure) sample_store
     = \<lparr>in_flight = sample_store\<lparr>isLoading := True\<rparr>, settled = sample_store\<rparr>"
proof -
  let ?listed = "\<lambda>req :: http_request. Response True (Parsed (payload (snd (get_orders
        [new_order later_env stop_limit_body, new_order later_env market_body]))))"
  let ?down = "\<lambda>req :: http_request. Rejected"
  let ?garbled = "\<lambda>req :: http_request. Response True ParseFailure"
  have st: "\<lparr>orders = orders sample_store, isLoading = False\<rparr> = sample_store"
    by (simp add: sample_store_def)
  note one = fetchOrders_outcomes [of ?listed sample_store]
  from one have a1: "in_flight (fetchOrders ?listed sample_store) = sample_store\<lparr>isLoading := True\<rparr>"
    by (rule conjunct1)
  from one have "settled (fetchOrders ?listed sample_store)
      = \<lparr>orders = JArr (map JObj [new_order later_env stop_limit_body,
                                       new_order later_env market_body]),
         isLoading = False\<rparr>"
    by blast
  then have a2: "settled (fetchOrders ?listed sample_store)
      = \<lparr>orders = JArr [JObj (new_order later_env stop_limit_body),
                          JObj (new_order later_env market_body)],
         isLoading = False\<rparr>"
    by simp
  note two = fetchOrders_outcomes [of ?down sample_store]
  from two have b1: "in_flight (fetchOrders ?down sample_store) = sample_store\<lparr>isLoading := True\<rparr>"
    by (rule conjunct1)
  from two have "settled (fetchOrders ?down sample_store)
      = \<lparr>orders = orders sample_store, isLoading = False\<rparr>"
    by blast
  then have b2: "settled (fetchOrders ?down sample_store) = sample_store"
    by (simp only: st)
  note three = fetchOrders_outcomes [of ?garbled sample_store]
  from three have c1: "in_flight (fetchOrders ?garbled sample_store) = sample_store\<lparr>isLoading := True\<rparr>"
    by (rule conjunct1)
  from three have "settled (fetchOrders ?garbled sample_store)
      = \<lparr>orders = orders sample_store, isLoading = False\<rparr>"
    by blast
  then have c2: "settled (fetchOrders ?garbled sample_store) = sample_store"
    by (simp only: st)
  show ?thesis
    using action_run_eqI [OF a1 a2] action_run_eqI [OF b1 b2] action_run_eqI [OF c1 c2]
    by (intro conjI)
qed

text \<open>
  C10, as amended. When \<open>fetchOrders\<close> gets an ok response whose body parses to a
  value other than \<open>null\<close> (\<open>undefined\<close> is no JSON value) and has no truthy
  \<open>orders\<close>, that is, reading \<open>orders\<close> from it gives nothing truthy (the empty
  object; \<open>orders\<close> being \<open>null\<close>, \<open>false\<close>, \<open>0\<close> or the empty string),
  the local list becomes the empty list, whatever it held before.
\<close>

theorem fetchOrders_falsy_orders_empties:
  assumes "fetch (Get ''/api/orders'') = Response True (Parsed data)"
    and "data \<noteq> JNull" and "data \<noteq> JUndefined"
    and "\<forall>v. get_prop data ''orders'' = Inr v \<longrightarrow> \<not> truthy v"
  shows "fetchOrders fetch s =
    \<lparr>in_flight = s\<lparr>isLoading := True\<rparr>, settled = \<lparr>orders = JArr [], isLoading = False\<rparr>\<rparr>"
proof -
  from assms(2,3) obtain v where v: "get_prop data ''orders'' = Inr v"
    using get_prop_readable by blast
  with assms(4) have "\<not> truthy v" by simp
  with assms(1) v show ?thesis
    by (simp add: fetchOrders_unfold fetchOrders_end_replaced)
qed

text \<open>The theorem on the empty object, for a store that holds one order.\<close>

theorem fetchOrders_falsy_orders_empties_witness:
  "JObj Map.empty \<noteq> JNull \<and> JObj Map.empty \<noteq> JUndefined
   \<and> get_prop (JObj Map.empty) ''orders'' = Inr JUndefined
   \<and> \<not> truthy JUndefined
   \<and> orders sample_store = JArr [JObj (new_order sample_env market_body)]
   \<and> settled (fetchOrders (\<lambda>req. Response True (Parsed (JObj Map.empty))) sample_store)
       = \<lparr>orders = JArr [], isLoading = False\<rparr>"
proof -
  have g: "get_prop (JObj Map.empty) ''orders'' = Inr JUndefined"
    by (simp add: field_def)
  have f: "\<forall>v. get_prop (JObj Map.empty) ''orders'' = Inr v \<longrightarrow> \<not> truthy v"
    by (simp add: field_def)
  have "fetchOrders (\<lambda>req. Response True (Parsed (JObj Map.empty))) sample_store
       = \<lparr>in_flight = sample_store\<lparr>isLoading := True\<rparr>,
          settled = \<lparr>orders = JArr [], isLoading = False\<rparr>\<rparr>"
    by (rule fetchOrders_falsy_orders_empties [OF _ _ _ f]) simp_all
  with g show ?thesis
    by (simp add: sample_store_def)
qed

text \<open>
  The claim as first stated covers every body that parses and has no truthy \<open>orders\<close>.
  The body \<open>null\<close> is one: it parses, but no property can be read from it, the read
  raises a TypeError, the \<open>catch\<close> block logs it and the local list stays as it was.
\<close>

theorem fetchOrders_null_body_keeps_list:
  "get_prop JNull ''orders'' = Inl TypeError
   \<and> orders sample_store = JArr [JObj (new_order sample_env market_body)]
   \<and> settled (fetchOrders (\<lambda>req. Response True (Parsed JNull)) sample_store) = sample_store"
  by (simp add: fetchOrders_unfold fetchOrders_end_def fetchOrders_try_def
      setLoading_def sample_store_def)


end
